theory Spec2Isabelle
  imports Complex_Main "HOL-Library.Sublist"
begin

section \<open>JavaScript values used by the weather module\<close>

text \<open>
  A JavaScript \<open>number\<close> is NaN, one of the two infinities, or a finite value. A finite
  value is modelled by the real number it denotes: rounding to binary64 is not modelled
  (it plays no part in comparisons, and the one addition of the module, \<open>nextday + 1\<close>,
  is exact on the integers that pass the bounds check). Negative zero is identified
  with zero: the module never tells them apart.
\<close>

datatype number = Finite real | NaN | PosInfinity | NegInfinity

text \<open>The relational operators \<open><\<close> and \<open>>\<close>: false as soon as one side is NaN.\<close>

fun js_lt :: "number \<Rightarrow> number \<Rightarrow> bool" where
  "js_lt NaN _ = False"
| "js_lt _ NaN = False"
| "js_lt (Finite a) (Finite b) = (a < b)"
| "js_lt (Finite a) PosInfinity = True"
| "js_lt (Finite a) NegInfinity = False"
| "js_lt PosInfinity _ = False"
| "js_lt NegInfinity NegInfinity = False"
| "js_lt NegInfinity _ = True"

definition js_gt :: "number \<Rightarrow> number \<Rightarrow> bool" where
  "js_gt a b = js_lt b a"

text \<open>\<open>a + b\<close> on numbers.\<close>

fun js_add :: "number \<Rightarrow> number \<Rightarrow> number" where
  "js_add NaN _ = NaN"
| "js_add _ NaN = NaN"
| "js_add (Finite a) (Finite b) = Finite (a + b)"
| "js_add (Finite a) PosInfinity = PosInfinity"
| "js_add (Finite a) NegInfinity = NegInfinity"
| "js_add PosInfinity NegInfinity = NaN"
| "js_add PosInfinity _ = PosInfinity"
| "js_add NegInfinity PosInfinity = NaN"
| "js_add NegInfinity _ = NegInfinity"

fun js_neg :: "number \<Rightarrow> number" where
  "js_neg (Finite a) = Finite (- a)"
| "js_neg NaN = NaN"
| "js_neg PosInfinity = NegInfinity"
| "js_neg NegInfinity = PosInfinity"

text \<open>
  Strings are lists of code units; only code units below 256 are representable. The
  characters that \<open>trim\<close> and \<open>parseFloat\<close> skip are, in that range: TAB, LF, VT, FF, CR,
  SPACE and NO-BREAK SPACE.
\<close>

definition isWhiteSpace :: "char \<Rightarrow> bool" where
  "isWhiteSpace c = (c \<in> set [CHR 0x09, CHR 0x0A, CHR 0x0B, CHR 0x0C, CHR 0x0D, CHR 0x20, CHR 0xA0])"

definition isDigit :: "char \<Rightarrow> bool" where
  "isDigit c = (c \<in> set ''0123456789'')"

definition digitVal :: "char \<Rightarrow> nat" where
  "digitVal c = of_char c - 48"

definition digitsVal :: "string \<Rightarrow> nat" where
  "digitsVal ds = foldl (\<lambda>a c. 10 * a + digitVal c) 0 ds"

subsection \<open>\<open>parseFloat\<close>\<close>

text \<open>
  \<open>parseFloat\<close> skips leading white space, reads the longest prefix that is a
  \<open>StrDecimalLiteral\<close> (an optional sign, then \<open>Infinity\<close> or decimal digits with an
  optional fraction and an optional exponent) and ignores what follows; with no such
  prefix the result is NaN. Its argument is first converted to a string, so a missing
  property is the string \<open>undefined\<close>, which parses to NaN.
  The result is the real number that the literal denotes: the rounding of that value
  to binary64, and its overflow to an infinity, are not modelled.
\<close>

definition exponentPart :: "string \<Rightarrow> int" where
  "exponentPart s =
     (case s of
        [] \<Rightarrow> 0
      | c # r \<Rightarrow>
          if c = CHR ''e'' \<or> c = CHR ''E'' then
            (case r of
               [] \<Rightarrow> 0
             | d # r' \<Rightarrow>
                 if d = CHR ''-'' then
                   (if takeWhile isDigit r' = [] then 0 else - int (digitsVal (takeWhile isDigit r')))
                 else if d = CHR ''+'' then
                   (if takeWhile isDigit r' = [] then 0 else int (digitsVal (takeWhile isDigit r')))
                 else int (digitsVal (takeWhile isDigit r)))
          else 0)"

definition scale10 :: "real \<Rightarrow> int \<Rightarrow> real" where
  "scale10 m e = (if 0 \<le> e then m * 10 ^ nat e else m / 10 ^ nat (- e))"

definition strUnsignedDecimalLiteral :: "string \<Rightarrow> number option" where
  "strUnsignedDecimalLiteral u =
     (if prefix ''Infinity'' u then Some PosInfinity
      else
        let ip = takeWhile isDigit u;
            r1 = dropWhile isDigit u;
            dot = (r1 \<noteq> [] \<and> hd r1 = CHR ''.'');
            fp = (if dot then takeWhile isDigit (tl r1) else []);
            r2 = (if dot then dropWhile isDigit (tl r1) else r1)
        in if ip = [] \<and> fp = [] then None
           else Some (Finite (scale10
                  (real (digitsVal ip) + real (digitsVal fp) / 10 ^ length fp)
                  (exponentPart r2))))"

definition parseFloat :: "string \<Rightarrow> number" where
  "parseFloat s =
     (let t = dropWhile isWhiteSpace s;
          neg = (t \<noteq> [] \<and> hd t = CHR ''-'');
          u = (if t \<noteq> [] \<and> (hd t = CHR ''-'' \<or> hd t = CHR ''+'') then tl t else t)
      in case strUnsignedDecimalLiteral u of
           None \<Rightarrow> NaN
         | Some v \<Rightarrow> if neg then js_neg v else v)"

section \<open>The network and the errors of the module\<close>

text \<open>
  What the code throws. \<open>Error msg\<close> is \<open>new Error(msg)\<close>; \<open>TypeError\<close> is what the
  runtime raises when a property of \<open>undefined\<close> is read (and what \<open>fetch\<close> rejects with
  when the service cannot be reached); \<open>SyntaxError\<close> is what \<open>response.json()\<close> rejects
  with on a body that is not JSON; \<open>ZodError\<close> is what schema validation rejects with.
\<close>

datatype error = Error string | TypeError | SyntaxError | ZodError

text \<open>
  The bodies of the two services, at the shape the code reads them. A body is a JSON
  object that may have a \<open>places\<close> key (the address service) and may have a \<open>daily\<close>
  key (the forecast service); reading an absent key gives \<open>undefined\<close>, here \<open>None\<close>.
  A \<open>daily\<close> object holds the five series, arrays of the element types that
  \<open>WeatherData\<close> declares; a place record holds its two coordinates as strings.
\<close>

record place =
  latitude :: string
  longitude :: string

record daily =
  time :: "string list"
  temperature_2m_max :: "number list"
  temperature_2m_min :: "number list"
  precipitation_sum :: "number list"
  weather_code :: "number list"

record body =
  places :: "place list option"
  daily :: "daily option"

record response =
  ok :: bool
  json :: "error + body"

text \<open>
  \<open>fetch\<close> is a parameter of every function that reaches the network: it maps the URL
  to the response, or to the error the promise rejects with. Each such function also
  threads the list of URLs requested so far, so that a theorem can say which requests
  a call has issued.
\<close>

type_synonym fetch = "string \<Rightarrow> error + response"

type_synonym 'a io = "string list \<Rightarrow> (error + 'a) \<times> string list"

section \<open>\<open>getCoordinatesFromZip\<close>\<close>

record Coordinates =
  lat :: number
  lon :: number

definition getCoordinatesFromZip :: "fetch \<Rightarrow> string \<Rightarrow> Coordinates io" where
  "getCoordinatesFromZip fetch zipCode reqs =
     (let url = ''https://api.zippopotam.us/us/'' @ zipCode;
          reqs1 = reqs @ [url]
      in case fetch url of
           Inl e \<Rightarrow> (Inl e, reqs1)
         | Inr response \<Rightarrow>
             if \<not> ok response then
               (Inl (Error (''Failed to fetch coordinates for ZIP code '' @ zipCode)), reqs1)
             else
               (case json response of
                  Inl e \<Rightarrow> (Inl e, reqs1)
                | Inr data \<Rightarrow>
                    (case places data of
                       None \<Rightarrow> (Inl TypeError, reqs1)
                     | Some [] \<Rightarrow> (Inl TypeError, reqs1)
                     | Some (place # _) \<Rightarrow>
                         (Inr \<lparr>lat = parseFloat (latitude place),
                               lon = parseFloat (longitude place)\<rparr>, reqs1))))"

text \<open>The ranges of a geographic coordinate, as predicates on numbers.\<close>

definition isFinite :: "number \<Rightarrow> bool" where
  "isFinite n = (case n of Finite _ \<Rightarrow> True | _ \<Rightarrow> False)"

definition inRange :: "real \<Rightarrow> real \<Rightarrow> number \<Rightarrow> bool" where
  "inRange lo hi n = (case n of Finite r \<Rightarrow> lo \<le> r \<and> r \<le> hi | _ \<Rightarrow> False)"

definition validCoordinates :: "Coordinates \<Rightarrow> bool" where
  "validCoordinates c =
     (isFinite (lat c) \<and> isFinite (lon c) \<and> inRange (- 90) 90 (lat c) \<and> inRange (- 180) 180 (lon c))"

section \<open>Numbers and missing values as text\<close>

text \<open>
  A template literal converts each interpolated value to a string. An integer of
  magnitude up to \<open>2^53\<close> is printed in decimal, digit for digit, and NaN and the
  infinities by name. The digits that JavaScript prints for any other finite value (a
  fraction, or an integer beyond \<open>2^53\<close>, printed with the shortest digits that read
  back as the same binary64 value) are fixed by its binary64 representation, which the
  model does not have: they are the parameter \<open>str\<close>.
\<close>

fun natToString :: "nat \<Rightarrow> string" where
  "natToString n =
     (if n < 10 then [''0123456789'' ! n]
      else natToString (n div 10) @ [''0123456789'' ! (n mod 10)])"

definition intToString :: "int \<Rightarrow> string" where
  "intToString i = (if i < 0 then CHR ''-'' # natToString (nat (- i)) else natToString (nat i))"

definition isInteger :: "real \<Rightarrow> bool" where
  "isInteger r = (r = of_int \<lfloor>r\<rfloor>)"

definition numberToString :: "(real \<Rightarrow> string) \<Rightarrow> number \<Rightarrow> string" where
  "numberToString str n =
     (case n of
        NaN \<Rightarrow> ''NaN''
      | PosInfinity \<Rightarrow> ''Infinity''
      | NegInfinity \<Rightarrow> ''-Infinity''
      | Finite r \<Rightarrow> if isInteger r \<and> \<bar>r\<bar> \<le> 2 ^ 53 then intToString \<lfloor>r\<rfloor> else str r)"

text \<open>A value read out of range of an array is \<open>undefined\<close>, here \<open>None\<close>.\<close>

definition showString :: "string option \<Rightarrow> string" where
  "showString v = (case v of None \<Rightarrow> ''undefined'' | Some s \<Rightarrow> s)"

definition showNumber :: "(real \<Rightarrow> string) \<Rightarrow> number option \<Rightarrow> string" where
  "showNumber str v = (case v of None \<Rightarrow> ''undefined'' | Some n \<Rightarrow> numberToString str n)"

text \<open>
  \<open>xs[n]\<close> for an array \<open>xs\<close> and a number \<open>n\<close>: the element when \<open>n\<close> is an integer
  inside the array, \<open>undefined\<close> otherwise (also for NaN and a fraction, which name a
  property that an array does not have).
\<close>

definition js_index :: "'a list \<Rightarrow> number \<Rightarrow> 'a option" where
  "js_index xs n =
     (case n of
        Finite r \<Rightarrow>
          if isInteger r \<and> 0 \<le> r \<and> nat \<lfloor>r\<rfloor> < length xs then Some (xs ! nat \<lfloor>r\<rfloor>) else None
      | _ \<Rightarrow> None)"

text \<open>The element at position \<open>i\<close> of an array, \<open>undefined\<close> beyond its end.\<close>

definition elementAt :: "'a list \<Rightarrow> nat \<Rightarrow> 'a option" where
  "elementAt xs i = (if i < length xs then Some (xs ! i) else None)"

section \<open>\<open>getWeather\<close>\<close>

record WeatherData =
  date :: "string option"
  maxTemp :: "number option"
  minTemp :: "number option"
  precipitation :: "number option"
  weatherCode :: "number option"
  weatherDescription :: string

definition weatherCodes :: "(int \<times> string) list" where
  "weatherCodes =
     [(0, ''Clear sky''),
      (1, ''Mainly clear''),
      (2, ''Partly cloudy''),
      (3, ''Overcast''),
      (45, ''Foggy''),
      (48, ''Depositing rime fog''),
      (51, ''Light drizzle''),
      (53, ''Moderate drizzle''),
      (55, ''Dense drizzle''),
      (61, ''Slight rain''),
      (63, ''Moderate rain''),
      (65, ''Heavy rain''),
      (71, ''Slight snow''),
      (73, ''Moderate snow''),
      (75, ''Heavy snow''),
      (77, ''Snow grains''),
      (80, ''Slight rain showers''),
      (81, ''Moderate rain showers''),
      (82, ''Violent rain showers''),
      (85, ''Slight snow showers''),
      (86, ''Heavy snow showers''),
      (95, ''Thunderstorm''),
      (96, ''Thunderstorm with slight hail''),
      (99, ''Thunderstorm with heavy hail'')]"

text \<open>
  \<open>weatherCodes[weatherCode]\<close>: the entry whose key is the code, for an integer code;
  \<open>undefined\<close> for every other number and for \<open>undefined\<close>, whose names are no key of
  the table.
\<close>

definition weatherCodes_get :: "number option \<Rightarrow> string option" where
  "weatherCodes_get c =
     (case c of
        Some (Finite r) \<Rightarrow> if isInteger r then map_of weatherCodes \<lfloor>r\<rfloor> else None
      | _ \<Rightarrow> None)"

text \<open>\<open>v || d\<close> on a string that may be \<open>undefined\<close>: the empty string is falsy as well.\<close>

definition js_or :: "string option \<Rightarrow> string \<Rightarrow> string" where
  "js_or v d = (case v of None \<Rightarrow> d | Some s \<Rightarrow> if s = [] then d else s)"

definition forecastUrl :: "(real \<Rightarrow> string) \<Rightarrow> number \<Rightarrow> number \<Rightarrow> number \<Rightarrow> string" where
  "forecastUrl str la lo forecastDays =
     ''https://api.open-meteo.com/v1/forecast?latitude='' @ numberToString str la
     @ ''&longitude='' @ numberToString str lo
     @ ''&daily=temperature_2m_max,temperature_2m_min,precipitation_sum,weather_code''
     @ ''&temperature_unit=fahrenheit''
     @ ''&timezone=America/New_York''
     @ ''&forecast_days='' @ numberToString str forecastDays"

definition getWeather ::
  "(real \<Rightarrow> string) \<Rightarrow> fetch \<Rightarrow> number \<Rightarrow> number \<Rightarrow> number \<Rightarrow> WeatherData io" where
  "getWeather str fetch la lo nextday reqs =
     (if js_lt nextday (Finite 0) \<or> js_gt nextday (Finite 16) then
        (Inl (Error ''nextday must be between 0 and 16 (Open-Meteo free tier limit)''), reqs)
      else
        let forecastDays = js_add nextday (Finite 1);
            url = forecastUrl str la lo forecastDays;
            reqs1 = reqs @ [url]
        in case fetch url of
             Inl e \<Rightarrow> (Inl e, reqs1)
           | Inr response \<Rightarrow>
               if \<not> ok response then (Inl (Error ''Failed to fetch weather data''), reqs1)
               else
                 (case json response of
                    Inl e \<Rightarrow> (Inl e, reqs1)
                  | Inr data \<Rightarrow>
                      (case daily data of
                         None \<Rightarrow> (Inl TypeError, reqs1)
                       | Some d \<Rightarrow>
                           let code = js_index (weather_code d) nextday
                           in (Inr \<lparr>date = js_index (time d) nextday,
                                    maxTemp = js_index (temperature_2m_max d) nextday,
                                    minTemp = js_index (temperature_2m_min d) nextday,
                                    precipitation = js_index (precipitation_sum d) nextday,
                                    weatherCode = code,
                                    weatherDescription = js_or (weatherCodes_get code) ''Unknown''\<rparr>,
                               reqs1))))"

section \<open>\<open>getWeatherByZip\<close>, \<open>formatWeather\<close> and \<open>getReadableWeatherByZip\<close>\<close>

definition getWeatherByZip ::
  "(real \<Rightarrow> string) \<Rightarrow> fetch \<Rightarrow> string \<Rightarrow> number \<Rightarrow> WeatherData io" where
  "getWeatherByZip str fetch zipCode daysAhead reqs =
     (case getCoordinatesFromZip fetch zipCode reqs of
        (Inl e, reqs1) \<Rightarrow> (Inl e, reqs1)
      | (Inr coords, reqs1) \<Rightarrow> getWeather str fetch (lat coords) (lon coords) daysAhead reqs1)"

text \<open>\<open>s.trim()\<close> removes the white space at both ends of \<open>s\<close>.\<close>

definition trimStart :: "string \<Rightarrow> string" where
  "trimStart s = dropWhile isWhiteSpace s"

definition trimEnd :: "string \<Rightarrow> string" where
  "trimEnd s = rev (dropWhile isWhiteSpace (rev s))"

definition trim :: "string \<Rightarrow> string" where
  "trim s = trimEnd (trimStart s)"

definition newline :: string where
  "newline = [CHR 0x0A]"

text \<open>The degree sign U+00B0, one code unit, followed by \<open>F\<close>.\<close>

definition degreesF :: string where
  "degreesF = [CHR 0xB0, CHR ''F'']"

definition formatWeather :: "(real \<Rightarrow> string) \<Rightarrow> WeatherData \<Rightarrow> string" where
  "formatWeather str weather =
     trim (newline
       @ ''Weather Forecast for '' @ showString (date weather) @ newline
       @ ''Condition: '' @ weatherDescription weather @ newline
       @ ''High: '' @ showNumber str (maxTemp weather) @ degreesF @ newline
       @ ''Low: '' @ showNumber str (minTemp weather) @ degreesF @ newline
       @ ''Precipitation: '' @ showNumber str (precipitation weather) @ '' mm'' @ newline
       @ ''Description: '' @ weatherDescription weather @ newline
       @ ''  '')"

definition getReadableWeatherByZip ::
  "(real \<Rightarrow> string) \<Rightarrow> fetch \<Rightarrow> string \<Rightarrow> number \<Rightarrow> string io" where
  "getReadableWeatherByZip str fetch zipCode daysAhead reqs =
     (case getWeatherByZip str fetch zipCode daysAhead reqs of
        (Inl e, reqs1) \<Rightarrow> (Inl e, reqs1)
      | (Inr weather, reqs1) \<Rightarrow> (Inr (formatWeather str weather), reqs1))"

section \<open>\<open>createTool\<close> and the \<open>weatherForcasting\<close> tool\<close>

text \<open>
  The values of a JavaScript object as far as the JSON Schema of a tool needs them, and
  the test that \<open>!v\<close> negates. A plain object is a finite map from property names to
  values; reading a property it does not have gives \<open>undefined\<close>.
\<close>

datatype jsval =
    Undefined
  | Null
  | Bool bool
  | Num number
  | Str string
  | Arr "jsval list"
  | Obj "(string \<times> jsval) list"

fun truthy :: "jsval \<Rightarrow> bool" where
  "truthy Undefined = False"
| "truthy Null = False"
| "truthy (Bool b) = b"
| "truthy (Num n) = (n \<noteq> NaN \<and> n \<noteq> Finite 0)"
| "truthy (Str s) = (s \<noteq> [])"
| "truthy (Arr _) = True"
| "truthy (Obj _) = True"

type_synonym jsobject = "string \<rightharpoonup> jsval"

definition js_get :: "jsobject \<Rightarrow> string \<Rightarrow> jsval" where
  "js_get obj k = (case obj k of None \<Rightarrow> Undefined | Some v \<Rightarrow> v)"

text \<open>
  The argument of \<open>createTool\<close> and the tool it returns. The wrapped \<open>execute\<close> is an
  asynchronous function with effects of its own: it transforms a state \<open>'s\<close> and returns
  a result or the error it rejects with. The execution context \<open>'c\<close> is opaque.
\<close>

record ('schema, 'p, 'c, 'r, 's) Options =
  name :: string
  description :: string
  schema :: 'schema
  execute :: "'p \<Rightarrow> 'c \<Rightarrow> 's \<Rightarrow> (error + 'r) \<times> 's"

record ('raw, 'c, 'r, 's) Tool =
  name :: string
  description :: string
  parameters :: jsobject
  execute :: "'raw \<Rightarrow> 'c \<Rightarrow> 's \<Rightarrow> (error + 'r) \<times> 's"

text \<open>
  \<open>zodToJsonSchema\<close> and the schema's \<open>parseAsync\<close> belong to the validation library:
  they are parameters. \<open>parseAsync\<close> returns the parsed value or the error it rejects
  with.
\<close>

definition createTool ::
  "('schema \<Rightarrow> jsobject) \<Rightarrow> ('schema \<Rightarrow> 'raw \<Rightarrow> error + 'p) \<Rightarrow>
   ('schema, 'p, 'c, 'r, 's) Options \<Rightarrow> ('raw, 'c, 'r, 's) Tool" where
  "createTool zodToJsonSchema parseAsync options =
     (let jsonSchema = zodToJsonSchema (schema options);
          jsonSchema' =
            (if \<not> truthy (js_get jsonSchema ''type'')
             then jsonSchema(''type'' \<mapsto> Str ''object'')
             else jsonSchema)
      in \<lparr>Tool.name = Options.name options,
          Tool.description = Options.description options,
          parameters = jsonSchema',
          Tool.execute =
            (\<lambda>params ctx s.
               case parseAsync (schema options) params of
                 Inl e \<Rightarrow> (Inl e, s)
               | Inr validatedParams \<Rightarrow> Options.execute options validatedParams ctx s)\<rparr>)"

text \<open>
  The schema of the weather tool, \<open>z.object({zipcode: z.string(), daysAhead:
  z.number().int()})\<close>, as the list of its fields with their types and descriptions;
  the type of the parameters it accepts; and the tool itself.
\<close>

datatype zodType = ZodString | ZodNumberInt

type_synonym zodObject = "(string \<times> zodType \<times> string) list"

record WeatherParams =
  zipcode :: string
  daysAhead :: number

definition weatherSchema :: zodObject where
  "weatherSchema =
     [(''zipcode'', ZodString, ''5-digit US zipcode''),
      (''daysAhead'', ZodNumberInt, ''number of days ahead to forcast'')]"

definition weatherForcasting ::
  "(zodObject \<Rightarrow> jsobject) \<Rightarrow> (zodObject \<Rightarrow> 'raw \<Rightarrow> error + WeatherParams) \<Rightarrow>
   (real \<Rightarrow> string) \<Rightarrow> fetch \<Rightarrow> ('raw, 'c, string, string list) Tool" where
  "weatherForcasting zodToJsonSchema parseAsync str fetch =
     createTool zodToJsonSchema parseAsync
       \<lparr>Options.name = ''weatherForcasting'',
        Options.description = ''Get the weather forecast for a U.S. zipcode for N days ahead'',
        schema = weatherSchema,
        Options.execute =
          (\<lambda>params ctx reqs.
             getReadableWeatherByZip str fetch (zipcode params) (daysAhead params) reqs)\<rparr>"

section \<open>Example environments\<close>

text \<open>
  The scenario of the specification: the address service knows the postal code 02148 at
  42.49, -71.07 and answers 404 with an empty object for every other code; the forecast
  service answers every request with the same three days. The only fractions of the
  scenario are the two coordinates, and \<open>exampleStr\<close> gives their digits.
\<close>

definition exampleStr :: "real \<Rightarrow> string" where
  "exampleStr r = (if r = 42.49 then ''42.49'' else ''-71.07'')"

definition exampleDaily :: daily where
  "exampleDaily =
     \<lparr>time = [''2024-06-01'', ''2024-06-02'', ''2024-06-03''],
      temperature_2m_max = [Finite 75, Finite 80, Finite 68],
      temperature_2m_min = [Finite 60, Finite 62, Finite 55],
      precipitation_sum = [Finite 0, Finite 0, Finite 3],
      weather_code = [Finite 1, Finite 4, Finite 61]\<rparr>"

definition exampleFetch :: fetch where
  "exampleFetch url =
     (if url = ''https://api.zippopotam.us/us/02148'' then
        Inr \<lparr>ok = True,
             json = Inr \<lparr>places = Some [\<lparr>latitude = ''42.49'', longitude = ''-71.07''\<rparr>],
                         daily = None\<rparr>\<rparr>
      else if prefix ''https://api.zippopotam.us/us/'' url then
        Inr \<lparr>ok = False, json = Inr \<lparr>places = None, daily = None\<rparr>\<rparr>
      else
        Inr \<lparr>ok = True, json = Inr \<lparr>places = None, daily = Some exampleDaily\<rparr>\<rparr>)"

text \<open>A service that answers every request with 400 and an empty object.\<close>

definition badRequestFetch :: fetch where
  "badRequestFetch url = Inr \<lparr>ok = False, json = Inr \<lparr>places = None, daily = None\<rparr>\<rparr>"

text \<open>An address service that answers 200 with an empty list of places.\<close>

definition emptyPlacesFetch :: fetch where
  "emptyPlacesFetch url = Inr \<lparr>ok = True, json = Inr \<lparr>places = Some [], daily = None\<rparr>\<rparr>"

text \<open>An address service whose place record carries a latitude of 999.\<close>

definition farNorthFetch :: fetch where
  "farNorthFetch url =
     Inr \<lparr>ok = True,
          json = Inr \<lparr>places = Some [\<lparr>latitude = ''999'', longitude = ''0''\<rparr>], daily = None\<rparr>\<rparr>"

text \<open>A record whose description ends in a space.\<close>

definition trailingSpaceWeather :: WeatherData where
  "trailingSpaceWeather =
     \<lparr>date = Some ''2024-06-01'',
      maxTemp = Some (Finite 75),
      minTemp = Some (Finite 60),
      precipitation = Some (Finite 0),
      weatherCode = Some (Finite 61),
      weatherDescription = ''Rain ''\<rparr>"

text \<open>The second day of the example forecast, whose code 4 is not in the table.\<close>

definition unknownCodeWeather :: WeatherData where
  "unknownCodeWeather =
     \<lparr>date = Some ''2024-06-02'',
      maxTemp = Some (Finite 80),
      minTemp = Some (Finite 62),
      precipitation = Some (Finite 0),
      weatherCode = Some (Finite 4),
      weatherDescription = ''Unknown''\<rparr>"

text \<open>
  An instance of the library for the schema of the weather tool. Validation accepts a
  payload whose \<open>zipcode\<close> is a string and whose \<open>daysAhead\<close> is an integer, and rejects
  every other payload; the converter is one that leaves the root type out.
\<close>

definition exampleParseAsync :: "zodObject \<Rightarrow> jsobject \<Rightarrow> error + WeatherParams" where
  "exampleParseAsync sch raw =
     (case (js_get raw ''zipcode'', js_get raw ''daysAhead'') of
        (Str z, Num (Finite r)) \<Rightarrow>
          if isInteger r then Inr \<lparr>zipcode = z, daysAhead = Finite r\<rparr> else Inl ZodError
      | _ \<Rightarrow> Inl ZodError)"

definition exampleToJsonSchema :: "zodObject \<Rightarrow> jsobject" where
  "exampleToJsonSchema sch =
     [''properties'' \<mapsto> Obj (map (\<lambda>(k, t, d). (k, Obj [(''description'', Str d)])) sch),
      ''required'' \<mapsto> Arr (map (\<lambda>(k, t, d). Str k) sch)]"

definition goodPayload :: jsobject where
  "goodPayload = [''zipcode'' \<mapsto> Str ''02148'', ''daysAhead'' \<mapsto> Num (Finite 1)]"

definition badPayload :: jsobject where
  "badPayload = [''zipcode'' \<mapsto> Str ''02148'', ''daysAhead'' \<mapsto> Str ''tomorrow'']"

section \<open>Facts about the helpers\<close>

lemma isInteger_of_int: "isInteger (of_int k)"
  by (simp add: isInteger_def)

lemma js_index_int:
  "0 \<le> k \<Longrightarrow>
   js_index xs (Finite (of_int k)) = (if nat k < length xs then Some (xs ! nat k) else None)"
  by (simp add: js_index_def isInteger_of_int)

lemma numberToString_int:
  assumes "\<bar>k\<bar> \<le> 2 ^ 53"
  shows "numberToString str (Finite (of_int k)) = intToString k"
proof -
  from assms have "\<bar>real_of_int k\<bar> \<le> 2 ^ 53"
    by (metis of_int_abs of_int_le_numeral_power_cancel_iff)
  then show ?thesis
    by (simp add: numberToString_def isInteger_of_int)
qed

lemma js_index_elementAt:
  "0 \<le> k \<Longrightarrow> js_index xs (Finite (of_int k)) = elementAt xs (nat k)"
  by (simp add: js_index_int elementAt_def)

lemma forecastUrl_int:
  assumes "0 \<le> k" and "k \<le> 16"
  shows "forecastUrl str la lo (Finite (of_int (k + 1))) =
     ''https://api.open-meteo.com/v1/forecast?latitude='' @ numberToString str la
      @ ''&longitude='' @ numberToString str lo
      @ ''&daily=temperature_2m_max,temperature_2m_min,precipitation_sum,weather_code''
      @ ''&temperature_unit=fahrenheit&timezone=America/New_York''
      @ ''&forecast_days='' @ intToString (k + 1)"
proof -
  have "numberToString str (Finite (of_int (k + 1))) = intToString (k + 1)"
    using assms by (intro numberToString_int) simp
  then show ?thesis by (simp add: forecastUrl_def)
qed

lemma bounds_check_int:
  "0 \<le> k \<Longrightarrow> k \<le> 16 \<Longrightarrow>
   \<not> js_lt (Finite (of_int k)) (Finite 0) \<and> \<not> js_gt (Finite (of_int k)) (Finite 16)"
  by (simp add: js_gt_def)

lemma trimEnd_drop_ws:
  assumes "\<forall>c\<in>set t. isWhiteSpace c"
  shows "trimEnd (s @ t) = trimEnd s"
proof -
  have "dropWhile isWhiteSpace (rev t @ rev s) = dropWhile isWhiteSpace (rev s)"
    using assms by (intro dropWhile_append2) simp
  then show ?thesis by (simp add: trimEnd_def)
qed

lemma trimEnd_keep:
  assumes "\<exists>c\<in>set d. \<not> isWhiteSpace c"
  shows "trimEnd (h @ d) = h @ trimEnd d"
proof -
  from assms obtain c where "c \<in> set (rev d)" "\<not> isWhiteSpace c" by auto
  then have "dropWhile isWhiteSpace (rev d @ rev h) = dropWhile isWhiteSpace (rev d) @ rev h"
    by (rule dropWhile_append1)
  then show ?thesis by (simp add: trimEnd_def)
qed

lemma trimEnd_id:
  assumes "s \<noteq> []" and "\<not> isWhiteSpace (last s)"
  shows "trimEnd s = s"
proof -
  from assms(1) have r: "rev s = last s # rev (butlast s)"
    by (induction s rule: rev_induct) simp_all
  have "dropWhile isWhiteSpace (last s # rev (butlast s)) = last s # rev (butlast s)"
    using assms(2) by simp
  then have "dropWhile isWhiteSpace (rev s) = rev s"
    by (simp only: r)
  then show ?thesis
    by (simp only: trimEnd_def rev_rev_ident)
qed

text \<open>
  Trimming a text made of leading white space \<open>n\<close>, a head \<open>h\<close> that starts with a
  visible character, a tail \<open>d\<close> that has one, and trailing white space \<open>t\<close>.
\<close>

lemma trim_block:
  assumes n: "\<forall>c\<in>set n. isWhiteSpace c"
    and h: "h \<noteq> []" "\<not> isWhiteSpace (hd h)"
    and d: "\<exists>c\<in>set d. \<not> isWhiteSpace c"
    and t: "\<forall>c\<in>set t. isWhiteSpace c"
  shows "trim (n @ h @ d @ t) = h @ trimEnd d"
proof -
  have "trimStart (n @ h @ d @ t) = dropWhile isWhiteSpace (h @ d @ t)"
    unfolding trimStart_def using n by (intro dropWhile_append2) simp
  also have "\<dots> = h @ d @ t"
    using h by (cases h) simp_all
  finally have "trim (n @ h @ d @ t) = trimEnd ((h @ d) @ t)"
    by (simp add: trim_def)
  also have "\<dots> = trimEnd (h @ d)"
    using t by (rule trimEnd_drop_ws)
  also have "\<dots> = h @ trimEnd d"
    using d by (rule trimEnd_keep)
  finally show ?thesis .
qed

text \<open>
  The text that \<open>formatWeather\<close> returns: the six lines of the template, the last one
  without the white space that the description may end in.
\<close>

lemma formatWeather_shape:
  "formatWeather str weather =
     ''Weather Forecast for '' @ showString (date weather) @ newline
     @ ''Condition: '' @ weatherDescription weather @ newline
     @ ''High: '' @ showNumber str (maxTemp weather) @ degreesF @ newline
     @ ''Low: '' @ showNumber str (minTemp weather) @ degreesF @ newline
     @ ''Precipitation: '' @ showNumber str (precipitation weather) @ '' mm'' @ newline
     @ trimEnd (''Description: '' @ weatherDescription weather)"
proof -
  define h where "h =
     ''Weather Forecast for '' @ showString (date weather) @ newline
     @ ''Condition: '' @ weatherDescription weather @ newline
     @ ''High: '' @ showNumber str (maxTemp weather) @ degreesF @ newline
     @ ''Low: '' @ showNumber str (minTemp weather) @ degreesF @ newline
     @ ''Precipitation: '' @ showNumber str (precipitation weather) @ '' mm'' @ newline"
  define d where "d = ''Description: '' @ weatherDescription weather"
  have "formatWeather str weather = trim (newline @ h @ d @ (newline @ ''  ''))"
    by (simp add: formatWeather_def h_def d_def)
  also have "\<dots> = h @ trimEnd d"
  proof (rule trim_block)
    show "\<forall>c\<in>set newline. isWhiteSpace c"
      by (simp add: newline_def isWhiteSpace_def)
    show "h \<noteq> []"
      by (simp add: h_def)
    show "\<not> isWhiteSpace (hd h)"
      by (simp add: h_def isWhiteSpace_def)
    have "CHR ''D'' \<in> set d"
      by (simp add: d_def)
    moreover have "\<not> isWhiteSpace CHR ''D''"
      by (simp add: isWhiteSpace_def)
    ultimately show "\<exists>c\<in>set d. \<not> isWhiteSpace c"
      by blast
    show "\<forall>c\<in>set (newline @ ''  ''). isWhiteSpace c"
      by (simp add: newline_def isWhiteSpace_def)
  qed
  finally show ?thesis
    by (simp add: h_def d_def)
qed

lemma sublistI: "ys = ps @ xs @ ss \<Longrightarrow> sublist xs ys"
  by (auto simp add: sublist_def)

text \<open>A code that is no key of the table has no entry.\<close>

lemma weatherCodes_get_absent:
  assumes "c \<notin> set (map (\<lambda>(k, s). Finite (of_int k)) weatherCodes)"
  shows "weatherCodes_get (Some c) = None"
proof (cases c)
  case (Finite r)
  show ?thesis
  proof (cases "isInteger r")
    case True
    then have r: "r = of_int \<lfloor>r\<rfloor>" by (simp add: isInteger_def)
    have "\<lfloor>r\<rfloor> \<notin> fst ` set weatherCodes"
    proof
      assume "\<lfloor>r\<rfloor> \<in> fst ` set weatherCodes"
      then obtain s where "(\<lfloor>r\<rfloor>, s) \<in> set weatherCodes" by auto
      then have "Finite (of_int \<lfloor>r\<rfloor>) \<in> set (map (\<lambda>(k, s). Finite (of_int k)) weatherCodes)"
        by force
      with r Finite assms show False by simp
    qed
    then have "map_of weatherCodes \<lfloor>r\<rfloor> = None"
      by (simp add: map_of_eq_None_iff)
    with Finite True show ?thesis by (simp add: weatherCodes_get_def)
  next
    case False
    with Finite show ?thesis by (simp add: weatherCodes_get_def)
  qed
qed (simp_all add: weatherCodes_get_def)

text \<open>No description of the table is empty or ends in white space.\<close>

lemma weatherCodes_trimmed:
  "\<forall>(k, s)\<in>set weatherCodes. s \<noteq> [] \<and> \<not> isWhiteSpace (last s)"
  by (simp add: weatherCodes_def isWhiteSpace_def)

lemma getCoordinatesFromZip_requests:
  "snd (getCoordinatesFromZip fetch zipCode reqs) =
     reqs @ [''https://api.zippopotam.us/us/'' @ zipCode]"
  by (simp add: getCoordinatesFromZip_def Let_def split: sum.splits option.splits list.splits)

lemma getCoordinatesFromZip_Inr:
  assumes "getCoordinatesFromZip fetch zipCode reqs = (Inr c, reqs')"
  shows "\<exists>response data p ps.
           fetch (''https://api.zippopotam.us/us/'' @ zipCode) = Inr response \<and> ok response
         \<and> json response = Inr data \<and> places data = Some (p # ps)
         \<and> c = \<lparr>lat = parseFloat (latitude p), lon = parseFloat (longitude p)\<rparr>"
  using assms
  by (auto simp add: getCoordinatesFromZip_def Let_def
           split: sum.splits option.splits list.splits if_splits)

lemmas parseFloat_defs =
  parseFloat_def strUnsignedDecimalLiteral_def isWhiteSpace_def isDigit_def digitsVal_def
  digitVal_def exponentPart_def scale10_def

lemma parseFloat_example_lat: "parseFloat ''42.49'' = Finite 42.49"
  by (simp add: parseFloat_defs)

lemma parseFloat_example_lon: "parseFloat ''-71.07'' = Finite (- 71.07)"
  by (simp add: parseFloat_defs)

lemma parseFloat_999: "parseFloat ''999'' = Finite 999"
  by (simp add: parseFloat_defs)

lemma parseFloat_0: "parseFloat ''0'' = Finite 0"
  by (simp add: parseFloat_defs)

section \<open>\<open>getWeather\<close>: the bounds check, the request and the selected day\<close>

text \<open>
  The check in terms of its two comparisons: a number below 0 or above 16 is refused
  with the message of the check and the list of requests is left as it was; a number
  that is neither passes, and the request for the forecast is issued.
\<close>

lemma getWeather_bounds:
  "(js_lt d (Finite 0) \<or> js_gt d (Finite 16) \<longrightarrow>
      getWeather str fetch la lo d reqs =
        (Inl (Error ''nextday must be between 0 and 16 (Open-Meteo free tier limit)''), reqs))
   \<and> (\<not> js_lt d (Finite 0) \<and> \<not> js_gt d (Finite 16) \<longrightarrow>
      snd (getWeather str fetch la lo d reqs) =
        reqs @ [forecastUrl str la lo (js_add d (Finite 1))])"
  by (auto simp add: getWeather_def Let_def split: sum.splits option.splits)

text \<open>
  Every number below 0 or above 16, the infinities included, makes \<open>getWeather\<close> fail
  with the error of its bounds check, and the list of requests is unchanged: no request
  has been issued. Every number \<open>r\<close> with \<open>0 \<le> r \<le> 16\<close> passes the check: the call
  goes on to request the forecast. The outcome of the check does not depend on \<open>fetch\<close>.
\<close>

lemma getWeather_bounds_check:
  "(r < 0 \<or> 16 < r \<longrightarrow>
      getWeather str fetch la lo (Finite r) reqs =
        (Inl (Error ''nextday must be between 0 and 16 (Open-Meteo free tier limit)''), reqs))
   \<and> getWeather str fetch la lo PosInfinity reqs =
        (Inl (Error ''nextday must be between 0 and 16 (Open-Meteo free tier limit)''), reqs)
   \<and> getWeather str fetch la lo NegInfinity reqs =
        (Inl (Error ''nextday must be between 0 and 16 (Open-Meteo free tier limit)''), reqs)
   \<and> (0 \<le> r \<and> r \<le> 16 \<longrightarrow>
      snd (getWeather str fetch la lo (Finite r) reqs) =
        reqs @ [forecastUrl str la lo (js_add (Finite r) (Finite 1))])"
proof -
  have "js_lt (Finite r) (Finite 0) \<or> js_gt (Finite r) (Finite 16)" if "r < 0 \<or> 16 < r"
    using that by (simp add: js_gt_def)
  moreover have "\<not> js_lt (Finite r) (Finite 0) \<and> \<not> js_gt (Finite r) (Finite 16)"
    if "0 \<le> r \<and> r \<le> 16"
    using that by (simp add: js_gt_def)
  moreover have "js_gt PosInfinity (Finite 16)" and "js_lt NegInfinity (Finite 0)"
    by (simp_all add: js_gt_def)
  ultimately show ?thesis
    using getWeather_bounds [of "Finite r" str fetch la lo reqs]
      getWeather_bounds [of PosInfinity str fetch la lo reqs]
      getWeather_bounds [of NegInfinity str fetch la lo reqs]
    by metis
qed

lemma getWeather_bounds_check_example:
  "getWeather exampleStr exampleFetch (Finite 42.49) (Finite (- 71.07)) (Finite 17) [] =
     (Inl (Error ''nextday must be between 0 and 16 (Open-Meteo free tier limit)''), [])
   \<and> getWeather exampleStr exampleFetch (Finite 42.49) (Finite (- 71.07)) (Finite (- 1)) [] =
     (Inl (Error ''nextday must be between 0 and 16 (Open-Meteo free tier limit)''), [])
   \<and> snd (getWeather exampleStr exampleFetch (Finite 42.49) (Finite (- 71.07)) (Finite 16) []) =
     [forecastUrl exampleStr (Finite 42.49) (Finite (- 71.07)) (Finite 17)]"
  using getWeather_bounds_check [of 17 exampleStr exampleFetch "Finite 42.49" "Finite (- 71.07)" "[]"]
    getWeather_bounds_check [of "- 1" exampleStr exampleFetch "Finite 42.49" "Finite (- 71.07)" "[]"]
    getWeather_bounds_check [of 16 exampleStr exampleFetch "Finite 42.49" "Finite (- 71.07)" "[]"]
  by simp

text \<open>
  NaN is the one number left: both comparisons of the check are false on it, so the
  check lets it through and the forecast is requested for NaN days.
\<close>

lemma getWeather_NaN_passes:
  "snd (getWeather str fetch la lo NaN reqs) = reqs @ [forecastUrl str la lo NaN]"
  using getWeather_bounds [of NaN str fetch la lo reqs] by (simp add: js_gt_def)

text \<open>
  C1. Every day offset outside the inclusive range 0..16 is to be refused by the bounds
  check before any request is issued, as the documentation of \<open>nextday\<close> and the message
  of the check say. NaN is outside that range, and the command line passes it when its
  second argument is not a number (\<open>parseInt\<close>). On NaN the code does not fail locally:
  it issues the forecast request with \<open>forecast_days=NaN\<close>, and the failure, when the
  service answers 400, is the error of the remote status check.
\<close>

theorem getWeather_NaN_reaches_network:
  "getWeather exampleStr badRequestFetch (Finite 42.49) (Finite (- 71.07)) NaN [] =
     (Inl (Error ''Failed to fetch weather data''),
      [''https://api.open-meteo.com/v1/forecast?latitude=42.49&longitude=-71.07''
       @ ''&daily=temperature_2m_max,temperature_2m_min,precipitation_sum,weather_code''
       @ ''&temperature_unit=fahrenheit&timezone=America/New_York&forecast_days=NaN''])"
  by (simp add: getWeather_def Let_def js_gt_def forecastUrl_def numberToString_def
        isInteger_def exampleStr_def badRequestFetch_def)

text \<open>
  C2. For every integer day offset \<open>k\<close> in 0..16, \<open>getWeather\<close> issues one request, for
  a window of \<open>k + 1\<close> days of the daily maximum and minimum temperature, precipitation
  sum and weather code, in Fahrenheit, in the time zone America/New_York; and when the
  service answers with a daily series, the record returned holds the entries at index
  \<open>k\<close> of that series.
\<close>

theorem getWeather_window_and_index:
  assumes "0 \<le> k" and "k \<le> 16"
  shows "snd (getWeather str fetch la lo (Finite (of_int k)) reqs) =
           reqs @ [forecastUrl str la lo (Finite (of_int (k + 1)))]
       \<and> forecastUrl str la lo (Finite (of_int (k + 1))) =
           ''https://api.open-meteo.com/v1/forecast?latitude='' @ numberToString str la
           @ ''&longitude='' @ numberToString str lo
           @ ''&daily=temperature_2m_max,temperature_2m_min,precipitation_sum,weather_code''
           @ ''&temperature_unit=fahrenheit&timezone=America/New_York''
           @ ''&forecast_days='' @ intToString (k + 1)
       \<and> (\<forall>response data d.
             fetch (forecastUrl str la lo (Finite (of_int (k + 1)))) = Inr response
             \<and> ok response \<and> json response = Inr data \<and> daily data = Some d \<longrightarrow>
             fst (getWeather str fetch la lo (Finite (of_int k)) reqs) =
               Inr \<lparr>date = elementAt (time d) (nat k),
                    maxTemp = elementAt (temperature_2m_max d) (nat k),
                    minTemp = elementAt (temperature_2m_min d) (nat k),
                    precipitation = elementAt (precipitation_sum d) (nat k),
                    weatherCode = elementAt (weather_code d) (nat k),
                    weatherDescription =
                      js_or (weatherCodes_get (elementAt (weather_code d) (nat k))) ''Unknown''\<rparr>)"
proof -
  note p = bounds_check_int [OF assms]
  have u: "js_add (Finite (of_int k)) (Finite 1) = Finite (of_int (k + 1))"
    by simp
  have a: "snd (getWeather str fetch la lo (Finite (of_int k)) reqs) =
          reqs @ [forecastUrl str la lo (Finite (of_int (k + 1)))]"
    using getWeather_bounds [of "Finite (of_int k)" str fetch la lo reqs] p
    by (simp only: u) blast
  have b: "fst (getWeather str fetch la lo (Finite (of_int k)) reqs) =
               Inr \<lparr>date = elementAt (time d) (nat k),
                    maxTemp = elementAt (temperature_2m_max d) (nat k),
                    minTemp = elementAt (temperature_2m_min d) (nat k),
                    precipitation = elementAt (precipitation_sum d) (nat k),
                    weatherCode = elementAt (weather_code d) (nat k),
                    weatherDescription =
                      js_or (weatherCodes_get (elementAt (weather_code d) (nat k))) ''Unknown''\<rparr>"
    if "fetch (forecastUrl str la lo (Finite (of_int (k + 1)))) = Inr response"
       "ok response" "json response = Inr data" "daily data = Some d"
    for response data d
    using that p assms(1) unfolding getWeather_def u Let_def
    by (simp add: js_index_elementAt del: js_lt.simps)
  from a b forecastUrl_int [OF assms] show ?thesis by blast
qed

theorem getWeather_window_and_index_witness:
  "(0::int) \<le> 2 \<and> (2::int) \<le> 16
   \<and> snd (getWeather exampleStr exampleFetch (Finite 42.49) (Finite (- 71.07)) (Finite 2) []) =
       [''https://api.open-meteo.com/v1/forecast?latitude=42.49&longitude=-71.07''
        @ ''&daily=temperature_2m_max,temperature_2m_min,precipitation_sum,weather_code''
        @ ''&temperature_unit=fahrenheit&timezone=America/New_York&forecast_days=3'']
   \<and> fst (getWeather exampleStr exampleFetch (Finite 42.49) (Finite (- 71.07)) (Finite 2) []) =
       Inr \<lparr>date = Some ''2024-06-03'', maxTemp = Some (Finite 68), minTemp = Some (Finite 55),
            precipitation = Some (Finite 3), weatherCode = Some (Finite 61),
            weatherDescription = ''Slight rain''\<rparr>"
proof -
  have h1: "(0::int) \<le> 2" and h2: "(2::int) \<le> 16" by simp_all
  note t = getWeather_window_and_index [OF h1 h2, of exampleStr exampleFetch "Finite 42.49"
      "Finite (- 71.07)" "[]"]
  have u: "forecastUrl exampleStr (Finite 42.49) (Finite (- 71.07)) (Finite (of_int (2 + 1))) =
       ''https://api.open-meteo.com/v1/forecast?latitude=42.49&longitude=-71.07''
        @ ''&daily=temperature_2m_max,temperature_2m_min,precipitation_sum,weather_code''
        @ ''&temperature_unit=fahrenheit&timezone=America/New_York&forecast_days=3''"
    using t by (simp add: numberToString_def isInteger_def exampleStr_def intToString_def)
  have f: "exampleFetch (forecastUrl exampleStr (Finite 42.49) (Finite (- 71.07)) (Finite (of_int (2 + 1)))) =
     Inr \<lparr>ok = True, json = Inr \<lparr>places = None, daily = Some exampleDaily\<rparr>\<rparr>"
    unfolding u by (simp add: exampleFetch_def)
  from t have "fst (getWeather exampleStr exampleFetch (Finite 42.49) (Finite (- 71.07)) (Finite (of_int 2)) []) =
       Inr \<lparr>date = elementAt (time exampleDaily) (nat 2),
                    maxTemp = elementAt (temperature_2m_max exampleDaily) (nat 2),
                    minTemp = elementAt (temperature_2m_min exampleDaily) (nat 2),
                    precipitation = elementAt (precipitation_sum exampleDaily) (nat 2),
                    weatherCode = elementAt (weather_code exampleDaily) (nat 2),
                    weatherDescription =
                      js_or (weatherCodes_get (elementAt (weather_code exampleDaily) (nat 2))) ''Unknown''\<rparr>"
    using f by (metis response.select_convs body.select_convs)
  then have r: "fst (getWeather exampleStr exampleFetch (Finite 42.49) (Finite (- 71.07)) (Finite 2) []) =
       Inr \<lparr>date = Some ''2024-06-03'', maxTemp = Some (Finite 68), minTemp = Some (Finite 55),
            precipitation = Some (Finite 3), weatherCode = Some (Finite 61),
            weatherDescription = ''Slight rain''\<rparr>"
    by (simp add: exampleDaily_def elementAt_def weatherCodes_get_def isInteger_def
          weatherCodes_def js_or_def)
  from t u have "snd (getWeather exampleStr exampleFetch (Finite 42.49) (Finite (- 71.07)) (Finite 2) []) =
       [''https://api.open-meteo.com/v1/forecast?latitude=42.49&longitude=-71.07''
        @ ''&daily=temperature_2m_max,temperature_2m_min,precipitation_sum,weather_code''
        @ ''&temperature_unit=fahrenheit&timezone=America/New_York&forecast_days=3'']"
    by simp
  with r show ?thesis by simp
qed

text \<open>
  C5. When the weather code selected from the daily series is a number that is no key
  of \<open>weatherCodes\<close>, \<open>getWeather\<close> succeeds: it returns the record with that code and
  the description \<open>Unknown\<close>, which \<open>formatWeather\<close> renders as the condition.
\<close>

theorem getWeather_unknown_code:
  assumes "\<not> js_lt nextday (Finite 0)" and "\<not> js_gt nextday (Finite 16)"
    and "fetch (forecastUrl str la lo (js_add nextday (Finite 1))) = Inr response"
    and "ok response" and "json response = Inr data" and "daily data = Some d"
    and "js_index (weather_code d) nextday = Some c"
    and "c \<notin> set (map (\<lambda>(k, s). Finite (of_int k)) weatherCodes)"
  shows "\<exists>weather.
           fst (getWeather str fetch la lo nextday reqs) = Inr weather
         \<and> weatherCode weather = Some c
         \<and> weatherDescription weather = ''Unknown''
         \<and> sublist ''Condition: Unknown'' (formatWeather str weather)"
proof -
  let ?w = "\<lparr>date = js_index (time d) nextday,
             maxTemp = js_index (temperature_2m_max d) nextday,
             minTemp = js_index (temperature_2m_min d) nextday,
             precipitation = js_index (precipitation_sum d) nextday,
             weatherCode = Some c,
             weatherDescription = ''Unknown''\<rparr>"
  have "js_or (weatherCodes_get (Some c)) ''Unknown'' = ''Unknown''"
    using weatherCodes_get_absent [OF assms(8)] by (simp add: js_or_def)
  with assms(1-7) have r: "fst (getWeather str fetch la lo nextday reqs) = Inr ?w"
    by (simp add: getWeather_def Let_def)
  have "sublist (''Condition: '' @ weatherDescription ?w) (formatWeather str ?w)"
    by (rule sublistI [where ps = "''Weather Forecast for '' @ showString (date ?w) @ newline"])
       (simp add: formatWeather_shape)
  then have "sublist ''Condition: Unknown'' (formatWeather str ?w)" by simp
  with r show ?thesis by simp
qed

theorem getWeather_unknown_code_witness:
  "\<exists>weather.
     fst (getWeather exampleStr exampleFetch (Finite 42.49) (Finite (- 71.07)) (Finite 1) []) =
       Inr weather
   \<and> weatherCode weather = Some (Finite 4)
   \<and> weatherDescription weather = ''Unknown''
   \<and> sublist ''Condition: Unknown'' (formatWeather exampleStr weather)"
proof (rule getWeather_unknown_code [where response =
          "\<lparr>ok = True, json = Inr \<lparr>places = None, daily = Some exampleDaily\<rparr>\<rparr>"
          and data = "\<lparr>places = None, daily = Some exampleDaily\<rparr>" and d = exampleDaily])
  show "\<not> js_lt (Finite 1) (Finite 0)" by simp
  show "\<not> js_gt (Finite 1) (Finite 16)" by (simp add: js_gt_def)
  show "exampleFetch (forecastUrl exampleStr (Finite 42.49) (Finite (- 71.07))
          (js_add (Finite 1) (Finite 1))) =
        Inr \<lparr>ok = True, json = Inr \<lparr>places = None, daily = Some exampleDaily\<rparr>\<rparr>"
    by (simp add: exampleFetch_def forecastUrl_def)
  show "ok \<lparr>ok = True, json = Inr \<lparr>places = None, daily = Some exampleDaily\<rparr>\<rparr>" by simp
  show "json \<lparr>ok = True, json = Inr \<lparr>places = None, daily = Some exampleDaily\<rparr>\<rparr> =
          Inr \<lparr>places = None, daily = Some exampleDaily\<rparr>" by simp
  show "daily \<lparr>places = None, daily = Some exampleDaily\<rparr> = Some exampleDaily" by simp
  show "js_index (weather_code exampleDaily) (Finite 1) = Some (Finite 4)"
    by (simp add: js_index_def isInteger_def exampleDaily_def)
  show "Finite 4 \<notin> set (map (\<lambda>(k, s). Finite (of_int k)) weatherCodes)"
    by (simp add: weatherCodes_def)
qed

section \<open>\<open>getCoordinatesFromZip\<close>: failures and result\<close>

text \<open>
  C4. When the address service answers with a status that is not a success,
  \<open>getCoordinatesFromZip\<close> fails with the error of its status check; when the answer
  is a success whose body has no place record (no \<open>places\<close>, or an empty list), it fails
  with the error of reading a property of \<open>undefined\<close>; in both cases no coordinates
  are returned. Otherwise it returns the latitude and longitude that \<open>parseFloat\<close>
  reads from the first place record.
\<close>

theorem getCoordinatesFromZip_outcomes:
  assumes "fetch (''https://api.zippopotam.us/us/'' @ zipCode) = Inr response"
  shows "(\<not> ok response \<longrightarrow>
            getCoordinatesFromZip fetch zipCode reqs =
              (Inl (Error (''Failed to fetch coordinates for ZIP code '' @ zipCode)),
               reqs @ [''https://api.zippopotam.us/us/'' @ zipCode]))
       \<and> (ok response \<and> json response = Inr data
            \<and> (places data = None \<or> places data = Some []) \<longrightarrow>
            getCoordinatesFromZip fetch zipCode reqs =
              (Inl TypeError, reqs @ [''https://api.zippopotam.us/us/'' @ zipCode]))
       \<and> (ok response \<and> json response = Inr data \<and> places data = Some (p # ps) \<longrightarrow>
            getCoordinatesFromZip fetch zipCode reqs =
              (Inr \<lparr>lat = parseFloat (latitude p), lon = parseFloat (longitude p)\<rparr>,
               reqs @ [''https://api.zippopotam.us/us/'' @ zipCode]))"
  using assms by (auto simp add: getCoordinatesFromZip_def Let_def)

theorem getCoordinatesFromZip_outcomes_witness:
  "getCoordinatesFromZip exampleFetch ''00000'' [] =
     (Inl (Error ''Failed to fetch coordinates for ZIP code 00000''),
      [''https://api.zippopotam.us/us/00000''])
   \<and> getCoordinatesFromZip emptyPlacesFetch ''02148'' [] =
     (Inl TypeError, [''https://api.zippopotam.us/us/02148''])
   \<and> getCoordinatesFromZip exampleFetch ''02148'' [] =
     (Inr \<lparr>lat = Finite 42.49, lon = Finite (- 71.07)\<rparr>,
      [''https://api.zippopotam.us/us/02148''])"
proof -
  have a: "exampleFetch (''https://api.zippopotam.us/us/'' @ ''00000'') =
             Inr \<lparr>ok = False, json = Inr \<lparr>places = None, daily = None\<rparr>\<rparr>"
    by (simp add: exampleFetch_def)
  have b: "emptyPlacesFetch (''https://api.zippopotam.us/us/'' @ ''02148'') =
             Inr \<lparr>ok = True, json = Inr \<lparr>places = Some [], daily = None\<rparr>\<rparr>"
    by (simp add: emptyPlacesFetch_def)
  have c: "exampleFetch (''https://api.zippopotam.us/us/'' @ ''02148'') =
             Inr \<lparr>ok = True,
                  json = Inr \<lparr>places = Some [\<lparr>latitude = ''42.49'', longitude = ''-71.07''\<rparr>],
                              daily = None\<rparr>\<rparr>"
    by (simp add: exampleFetch_def)
  show ?thesis
    using getCoordinatesFromZip_outcomes
            [where fetch = exampleFetch and zipCode = "''00000''" and reqs = "[]", OF a]
          getCoordinatesFromZip_outcomes
            [where fetch = emptyPlacesFetch and zipCode = "''02148''" and reqs = "[]"
               and data = "\<lparr>places = Some [], daily = None\<rparr>", OF b]
          getCoordinatesFromZip_outcomes
            [where fetch = exampleFetch and zipCode = "''02148''" and reqs = "[]"
               and data = "\<lparr>places = Some [\<lparr>latitude = ''42.49'', longitude = ''-71.07''\<rparr>],
                            daily = None\<rparr>"
               and p = "\<lparr>latitude = ''42.49'', longitude = ''-71.07''\<rparr>" and ps = "[]", OF c]
    by (simp add: parseFloat_example_lat parseFloat_example_lon)
qed

text \<open>
  C9 as stated: whenever the geocode succeeds, the coordinates are finite, the latitude
  within -90..90 and the longitude within -180..180. The code does not check what the
  service sends: a place record with the latitude 999 is returned as it is.
\<close>

theorem getCoordinatesFromZip_range_counterexample:
  "getCoordinatesFromZip farNorthFetch ''02148'' [] =
     (Inr \<lparr>lat = Finite 999, lon = Finite 0\<rparr>, [''https://api.zippopotam.us/us/02148''])
   \<and> \<not> validCoordinates \<lparr>lat = Finite 999, lon = Finite 0\<rparr>"
  by (simp add: getCoordinatesFromZip_def farNorthFetch_def parseFloat_999 parseFloat_0
        validCoordinates_def inRange_def isFinite_def)

text \<open>
  C9 as amended: whenever the geocode succeeds, the coordinates are what \<open>parseFloat\<close>
  reads from the latitude and longitude strings of the first place record, unchecked;
  they are finite and within the ranges exactly when those two readings are.
\<close>

theorem getCoordinatesFromZip_unchecked:
  assumes "getCoordinatesFromZip fetch zipCode reqs = (Inr c, reqs')"
  shows "\<exists>response data p ps.
           fetch (''https://api.zippopotam.us/us/'' @ zipCode) = Inr response
         \<and> json response = Inr data \<and> places data = Some (p # ps)
         \<and> lat c = parseFloat (latitude p) \<and> lon c = parseFloat (longitude p)
         \<and> (validCoordinates c \<longleftrightarrow>
              inRange (- 90) 90 (parseFloat (latitude p))
              \<and> inRange (- 180) 180 (parseFloat (longitude p)))"
proof -
  from getCoordinatesFromZip_Inr [OF assms] obtain response data p ps where
    h: "fetch (''https://api.zippopotam.us/us/'' @ zipCode) = Inr response"
       "json response = Inr data" "places data = Some (p # ps)"
       "c = \<lparr>lat = parseFloat (latitude p), lon = parseFloat (longitude p)\<rparr>"
    by blast
  have "validCoordinates c \<longleftrightarrow>
          inRange (- 90) 90 (parseFloat (latitude p))
          \<and> inRange (- 180) 180 (parseFloat (longitude p))"
    by (auto simp add: h(4) validCoordinates_def inRange_def isFinite_def split: number.splits)
  with h show ?thesis by auto
qed

theorem getCoordinatesFromZip_unchecked_witness:
  "getCoordinatesFromZip exampleFetch ''02148'' [] =
     (Inr \<lparr>lat = Finite 42.49, lon = Finite (- 71.07)\<rparr>, [''https://api.zippopotam.us/us/02148''])
   \<and> validCoordinates \<lparr>lat = Finite 42.49, lon = Finite (- 71.07)\<rparr>"
proof -
  let ?c = "\<lparr>lat = Finite 42.49, lon = Finite (- 71.07)\<rparr>"
  have r: "getCoordinatesFromZip exampleFetch ''02148'' [] =
             (Inr ?c, [''https://api.zippopotam.us/us/02148''])"
    by (simp add: getCoordinatesFromZip_def exampleFetch_def parseFloat_example_lat
          parseFloat_example_lon)
  from getCoordinatesFromZip_unchecked [OF r] obtain p :: place where
    la: "lat ?c = parseFloat (latitude p)" and lo: "lon ?c = parseFloat (longitude p)" and
    v: "validCoordinates ?c \<longleftrightarrow>
          inRange (- 90) 90 (parseFloat (latitude p))
          \<and> inRange (- 180) 180 (parseFloat (longitude p))"
    by blast
  have "inRange (- 90) 90 (lat ?c)" and "inRange (- 180) 180 (lon ?c)"
    by (simp_all add: inRange_def)
  with la lo v have "validCoordinates ?c" by simp
  with r show ?thesis by simp
qed

section \<open>\<open>formatWeather\<close>\<close>


text \<open>
  C10 as stated: for every record, the text contains the description twice, after
  \<open>Condition:\<close> and after \<open>Description:\<close>. The description line is the last line of
  the template, and the final \<open>trim\<close> removes the white space a description ends in:
  for a description with a trailing space the last line shows it without the space.
\<close>

theorem formatWeather_description_twice_counterexample:
  "formatWeather exampleStr trailingSpaceWeather =
     ''Weather Forecast for 2024-06-01'' @ newline
     @ ''Condition: Rain '' @ newline
     @ ''High: 75'' @ degreesF @ newline
     @ ''Low: 60'' @ degreesF @ newline
     @ ''Precipitation: 0 mm'' @ newline
     @ ''Description: Rain''
   \<and> \<not> sublist (''Description: '' @ weatherDescription trailingSpaceWeather)
         (formatWeather exampleStr trailingSpaceWeather)"
  by code_simp

text \<open>
  C10 as amended: for every record whose description is not empty and does not end in
  white space, the text contains the description twice: on the line that starts with
  \<open>Condition:\<close> and on the last line, which starts with \<open>Description:\<close>.
\<close>

theorem formatWeather_description_twice:
  assumes "weatherDescription weather \<noteq> []"
    and "\<not> isWhiteSpace (last (weatherDescription weather))"
  shows "sublist (''Condition: '' @ weatherDescription weather @ newline) (formatWeather str weather)
       \<and> suffix (newline @ ''Description: '' @ weatherDescription weather) (formatWeather str weather)"
proof -
  let ?a = "''Weather Forecast for '' @ showString (date weather) @ newline"
  let ?b = "''Condition: '' @ weatherDescription weather @ newline"
  let ?c = "''High: '' @ showNumber str (maxTemp weather) @ degreesF @ newline
     @ ''Low: '' @ showNumber str (minTemp weather) @ degreesF @ newline
     @ ''Precipitation: '' @ showNumber str (precipitation weather) @ '' mm''"
  let ?f = "''Description: '' @ weatherDescription weather"
  from assms have "trimEnd ?f = ?f"
    by (intro trimEnd_id) simp_all
  then have s: "formatWeather str weather = ?a @ ?b @ ?c @ newline @ ?f"
    by (simp add: formatWeather_shape)
  have "sublist ?b (formatWeather str weather)"
    by (rule sublistI [where ps = "?a" and ss = "?c @ newline @ ?f"]) (simp add: s)
  moreover have "suffix (newline @ ?f) (formatWeather str weather)"
    unfolding suffix_def by (rule exI [where x = "?a @ ?b @ ?c"]) (simp add: s)
  ultimately show ?thesis by blast
qed

theorem formatWeather_description_twice_witness:
  "weatherDescription unknownCodeWeather \<noteq> []
   \<and> \<not> isWhiteSpace (last (weatherDescription unknownCodeWeather))
   \<and> sublist (''Condition: Unknown'' @ newline) (formatWeather exampleStr unknownCodeWeather)
   \<and> suffix (newline @ ''Description: Unknown'') (formatWeather exampleStr unknownCodeWeather)"
proof -
  have a: "weatherDescription unknownCodeWeather \<noteq> []"
    by (simp add: unknownCodeWeather_def)
  have b: "\<not> isWhiteSpace (last (weatherDescription unknownCodeWeather))"
    by (simp add: unknownCodeWeather_def isWhiteSpace_def)
  have c: "weatherDescription unknownCodeWeather = ''Unknown''"
    by (simp add: unknownCodeWeather_def)
  from formatWeather_description_twice [OF a b, of exampleStr] a b show ?thesis
    by (simp only: c append.simps) simp
qed

text \<open>Every description that \<open>getWeather\<close> assigns is of that kind.\<close>

lemma getWeather_description_trimmed:
  assumes "fst (getWeather str fetch la lo nextday reqs) = Inr weather"
  shows "weatherDescription weather \<noteq> [] \<and> \<not> isWhiteSpace (last (weatherDescription weather))"
proof -
  have k: "js_or (weatherCodes_get c) ''Unknown'' \<noteq> []
         \<and> \<not> isWhiteSpace (last (js_or (weatherCodes_get c) ''Unknown''))" for c
  proof (cases "weatherCodes_get c")
    case None
    then show ?thesis by (simp add: js_or_def isWhiteSpace_def)
  next
    case (Some s)
    then obtain k where "map_of weatherCodes k = Some s"
      by (auto simp add: weatherCodes_get_def split: option.splits number.splits if_splits)
    then have "(k, s) \<in> set weatherCodes" by (rule map_of_SomeD)
    with weatherCodes_trimmed have "s \<noteq> [] \<and> \<not> isWhiteSpace (last s)" by blast
    with Some show ?thesis by (simp add: js_or_def)
  qed
  from assms obtain c where "weatherDescription weather = js_or (weatherCodes_get c) ''Unknown''"
    by (auto simp add: getWeather_def Let_def split: if_splits sum.splits option.splits)
  with k show ?thesis by simp
qed

section \<open>\<open>getReadableWeatherByZip\<close>\<close>

text \<open>
  C3. \<open>getReadableWeatherByZip\<close> is \<open>getCoordinatesFromZip\<close>, then \<open>getWeather\<close> on the
  coordinates, then \<open>formatWeather\<close> on the record. The first stage that fails ends the
  call with the error of that stage, unchanged; in particular, when the geocode fails
  the only request issued is the one to the address service.
\<close>

theorem getReadableWeatherByZip_composition:
  "getReadableWeatherByZip str fetch zipCode days reqs =
     (case getCoordinatesFromZip fetch zipCode reqs of
        (Inl e, reqs1) \<Rightarrow> (Inl e, reqs1)
      | (Inr coords, reqs1) \<Rightarrow>
          (case getWeather str fetch (lat coords) (lon coords) days reqs1 of
             (Inl e, reqs2) \<Rightarrow> (Inl e, reqs2)
           | (Inr weather, reqs2) \<Rightarrow> (Inr (formatWeather str weather), reqs2)))
   \<and> (fst (getCoordinatesFromZip fetch zipCode reqs) = Inl e \<longrightarrow>
        getReadableWeatherByZip str fetch zipCode days reqs =
          (Inl e, reqs @ [''https://api.zippopotam.us/us/'' @ zipCode]))"
proof -
  have "getReadableWeatherByZip str fetch zipCode days reqs =
          (Inl e, reqs @ [''https://api.zippopotam.us/us/'' @ zipCode])"
    if "fst (getCoordinatesFromZip fetch zipCode reqs) = Inl e"
  proof -
    from that getCoordinatesFromZip_requests [of fetch zipCode reqs]
    have "getCoordinatesFromZip fetch zipCode reqs =
            (Inl e, reqs @ [''https://api.zippopotam.us/us/'' @ zipCode])"
      by (metis prod.collapse)
    then show ?thesis
      by (simp add: getReadableWeatherByZip_def getWeatherByZip_def)
  qed
  moreover have "getReadableWeatherByZip str fetch zipCode days reqs =
     (case getCoordinatesFromZip fetch zipCode reqs of
        (Inl e, reqs1) \<Rightarrow> (Inl e, reqs1)
      | (Inr coords, reqs1) \<Rightarrow>
          (case getWeather str fetch (lat coords) (lon coords) days reqs1 of
             (Inl e, reqs2) \<Rightarrow> (Inl e, reqs2)
           | (Inr weather, reqs2) \<Rightarrow> (Inr (formatWeather str weather), reqs2)))"
    by (simp add: getReadableWeatherByZip_def getWeatherByZip_def split: prod.splits sum.splits)
  ultimately show ?thesis by blast
qed

theorem getReadableWeatherByZip_composition_witness:
  "fst (getCoordinatesFromZip exampleFetch ''00000'' []) =
     Inl (Error ''Failed to fetch coordinates for ZIP code 00000'')
   \<and> getReadableWeatherByZip exampleStr exampleFetch ''00000'' (Finite 0) [] =
     (Inl (Error ''Failed to fetch coordinates for ZIP code 00000''),
      [''https://api.zippopotam.us/us/00000''])"
proof -
  have g: "fst (getCoordinatesFromZip exampleFetch ''00000'' []) =
             Inl (Error ''Failed to fetch coordinates for ZIP code 00000'')"
    by (simp add: getCoordinatesFromZip_def exampleFetch_def)
  from getReadableWeatherByZip_composition
         [of exampleStr exampleFetch "''00000''" "Finite 0" "[]"
             "Error ''Failed to fetch coordinates for ZIP code 00000''"] g
  have "getReadableWeatherByZip exampleStr exampleFetch ''00000'' (Finite 0) [] =
          (Inl (Error ''Failed to fetch coordinates for ZIP code 00000''),
           [] @ [''https://api.zippopotam.us/us/'' @ ''00000''])"
    by blast
  with g show ?thesis by simp
qed

text \<open>The scenario of the specification, end to end.\<close>

lemma example_end_to_end:
  "getReadableWeatherByZip exampleStr exampleFetch ''02148'' (Finite 0) [] =
     (Inr (''Weather Forecast for 2024-06-01'' @ newline
           @ ''Condition: Mainly clear'' @ newline
           @ ''High: 75'' @ degreesF @ newline
           @ ''Low: 60'' @ degreesF @ newline
           @ ''Precipitation: 0 mm'' @ newline
           @ ''Description: Mainly clear''),
      [''https://api.zippopotam.us/us/02148'',
       ''https://api.open-meteo.com/v1/forecast?latitude=42.49&longitude=-71.07''
       @ ''&daily=temperature_2m_max,temperature_2m_min,precipitation_sum,weather_code''
       @ ''&temperature_unit=fahrenheit&timezone=America/New_York&forecast_days=1''])"
  by code_simp

section \<open>\<open>createTool\<close>\<close>

text \<open>
  C7. The \<open>execute\<close> of a tool validates the payload first. When validation fails, the
  call fails with the error of the validation and the state is the one before the
  call: the wrapped function has not run. When validation succeeds, the outcome is
  that of one run of the wrapped function on the parsed value and the context.
\<close>

theorem createTool_validates_first:
  "(parseAsync (schema options) params = Inl e \<longrightarrow>
      Tool.execute (createTool zodToJsonSchema parseAsync options) params ctx s = (Inl e, s))
   \<and> (parseAsync (schema options) params = Inr validatedParams \<longrightarrow>
      Tool.execute (createTool zodToJsonSchema parseAsync options) params ctx s =
        Options.execute options validatedParams ctx s)"
  by (simp add: createTool_def Let_def)

theorem createTool_validates_first_witness:
  "exampleParseAsync weatherSchema badPayload = Inl ZodError
   \<and> Tool.execute (weatherForcasting exampleToJsonSchema exampleParseAsync exampleStr exampleFetch)
        badPayload () [] = (Inl ZodError, [])
   \<and> exampleParseAsync weatherSchema goodPayload = Inr \<lparr>zipcode = ''02148'', daysAhead = Finite 1\<rparr>
   \<and> Tool.execute (weatherForcasting exampleToJsonSchema exampleParseAsync exampleStr exampleFetch)
        goodPayload () [] =
      getReadableWeatherByZip exampleStr exampleFetch ''02148'' (Finite 1) []"
proof -
  let ?options = "\<lparr>Options.name = ''weatherForcasting'',
        Options.description = ''Get the weather forecast for a U.S. zipcode for N days ahead'',
        schema = weatherSchema,
        Options.execute =
          (\<lambda>params (ctx::unit) reqs.
             getReadableWeatherByZip exampleStr exampleFetch (zipcode params) (daysAhead params) reqs)\<rparr>"
  have b: "exampleParseAsync (schema ?options) badPayload = Inl ZodError"
    by (simp add: exampleParseAsync_def badPayload_def js_get_def)
  have g: "exampleParseAsync (schema ?options) goodPayload =
             Inr \<lparr>zipcode = ''02148'', daysAhead = Finite 1\<rparr>"
    by (simp add: exampleParseAsync_def goodPayload_def js_get_def isInteger_def)
  from createTool_validates_first
         [of exampleParseAsync ?options badPayload ZodError exampleToJsonSchema "()" "[]"] b
  have 1: "Tool.execute (createTool exampleToJsonSchema exampleParseAsync ?options) badPayload () [] =
             (Inl ZodError, [])"
    by blast
  from createTool_validates_first
         [of exampleParseAsync ?options goodPayload _ exampleToJsonSchema "()" "[]"
             "\<lparr>zipcode = ''02148'', daysAhead = Finite 1\<rparr>"] g
  have 2: "Tool.execute (createTool exampleToJsonSchema exampleParseAsync ?options) goodPayload () [] =
             Options.execute ?options \<lparr>zipcode = ''02148'', daysAhead = Finite 1\<rparr> () []"
    by blast
  from b g 1 2 show ?thesis
    by (simp add: weatherForcasting_def)
qed

text \<open>
  C8. When the JSON Schema derived from the declared schema has no \<open>type\<close> at its root,
  the \<open>parameters\<close> of the tool have the type \<open>object\<close>, and every other property as
  derived.
\<close>

theorem createTool_default_type:
  assumes "zodToJsonSchema (schema options) ''type'' = None"
  shows "parameters (createTool zodToJsonSchema parseAsync options) ''type'' = Some (Str ''object'')
       \<and> (\<forall>k. k \<noteq> ''type'' \<longrightarrow>
            parameters (createTool zodToJsonSchema parseAsync options) k =
              zodToJsonSchema (schema options) k)"
  using assms by (simp add: createTool_def Let_def js_get_def)

theorem createTool_default_type_witness:
  "exampleToJsonSchema weatherSchema ''type'' = None
   \<and> parameters (weatherForcasting exampleToJsonSchema exampleParseAsync exampleStr exampleFetch
        :: (jsobject, unit, string, string list) Tool) ''type'' = Some (Str ''object'')
   \<and> parameters (weatherForcasting exampleToJsonSchema exampleParseAsync exampleStr exampleFetch
        :: (jsobject, unit, string, string list) Tool) ''required'' =
      Some (Arr [Str ''zipcode'', Str ''daysAhead''])"
proof -
  let ?options = "\<lparr>Options.name = ''weatherForcasting'',
        Options.description = ''Get the weather forecast for a U.S. zipcode for N days ahead'',
        schema = weatherSchema,
        Options.execute =
          (\<lambda>params (ctx::unit) reqs.
             getReadableWeatherByZip exampleStr exampleFetch (zipcode params) (daysAhead params) reqs)\<rparr>"
  have n: "exampleToJsonSchema (schema ?options) ''type'' = None"
    by (simp add: exampleToJsonSchema_def)
  have r: "exampleToJsonSchema weatherSchema ''required'' = Some (Arr [Str ''zipcode'', Str ''daysAhead''])"
    by (simp add: exampleToJsonSchema_def weatherSchema_def)
  note t = createTool_default_type
      [where zodToJsonSchema = exampleToJsonSchema and options = ?options
         and parseAsync = exampleParseAsync, OF n]
  from t have "parameters (createTool exampleToJsonSchema exampleParseAsync ?options :: (jsobject, unit, string, string list) Tool) ''type'' = Some (Str ''object'')"
    by blast
  moreover from t have "parameters (createTool exampleToJsonSchema exampleParseAsync ?options :: (jsobject, unit, string, string list) Tool) ''required'' =
      exampleToJsonSchema (schema ?options) ''required''"
    by simp
  ultimately show ?thesis using n r
    by (simp add: weatherForcasting_def)
qed

end
